theory Spec2Isabelle
  imports Complex_Main
begin

section \<open>Ahoy: the Hoymiles gateway of tools/rpi/ahoy.py\<close>

text \<open>
  A shallow embedding of \<^verbatim>\<open>src/tools/rpi/ahoy.py\<close>. The module keeps its state in
  globals (\<^verbatim>\<open>command_queue\<close>, \<^verbatim>\<open>mqtt_command_topic_subs\<close>, \<^verbatim>\<open>mqtt_client\<close>);
  here they are the fields of a record that every function takes and returns. Calls
  into the radio, the message bus, the clock and the process are recorded, in order,
  in the field \<open>effects\<close>. An exception is a value of the type \<open>error\<close>.
\<close>

subsection \<open>Python values\<close>

text \<open>
  A \<^verbatim>\<open>bytes\<close> object is a list of 8-bit characters. A \<^verbatim>\<open>str\<close> whose content is
  inspected (the command text) is a list of Unicode code points, so that its length
  counts code points as \<^verbatim>\<open>len\<close> does. Topics and serials are only compared and
  concatenated; they are kept as \<open>string\<close>.
\<close>

type_synonym bytes = "char list"
type_synonym pystr = "nat list"

datatype error =
    StopIteration | UnboundLocalError | UnicodeDecodeError | StructError
  | ValueError | IndexError | KeyError | AttributeError | RuntimeError
  | KeyboardInterrupt

definition ustr :: "string \<Rightarrow> pystr" where
  "ustr s = map of_char s"

subsubsection \<open>\<^verbatim>\<open>bytes.decode('utf-8')\<close>\<close>

definition cont :: "nat \<Rightarrow> bool" where
  "cont b = (0x80 \<le> b \<and> b \<le> 0xBF)"

text \<open>
  The strict decoder: shortest forms only, no surrogates, nothing above U+10FFFF.
  \<open>None\<close> is \<^verbatim>\<open>UnicodeDecodeError\<close>.
\<close>

fun utf8 :: "nat list \<Rightarrow> pystr option" where
  "utf8 [] = Some []"
| "utf8 (b # bs) =
    (if b < 0x80 then map_option ((#) b) (utf8 bs)
     else if 0xC2 \<le> b \<and> b \<le> 0xDF then
       (case bs of
          c1 # r \<Rightarrow>
            if cont c1
            then map_option ((#) ((b - 0xC0) * 64 + (c1 - 0x80))) (utf8 r)
            else None
        | _ \<Rightarrow> None)
     else if 0xE0 \<le> b \<and> b \<le> 0xEF then
       (case bs of
          c1 # c2 # r \<Rightarrow>
            if (if b = 0xE0 then 0xA0 else 0x80) \<le> c1
               \<and> c1 \<le> (if b = 0xED then 0x9F else 0xBF) \<and> cont c2
            then map_option
                   ((#) ((b - 0xE0) * 4096 + (c1 - 0x80) * 64 + (c2 - 0x80)))
                   (utf8 r)
            else None
        | _ \<Rightarrow> None)
     else if 0xF0 \<le> b \<and> b \<le> 0xF4 then
       (case bs of
          c1 # c2 # c3 # r \<Rightarrow>
            if (if b = 0xF0 then 0x90 else 0x80) \<le> c1
               \<and> c1 \<le> (if b = 0xF4 then 0x8F else 0xBF) \<and> cont c2 \<and> cont c3
            then map_option
                   ((#) ((b - 0xF0) * 262144 + (c1 - 0x80) * 4096
                         + (c2 - 0x80) * 64 + (c3 - 0x80)))
                   (utf8 r)
            else None
        | _ \<Rightarrow> None)
     else None)"

definition decode_utf8 :: "bytes \<Rightarrow> pystr option" where
  "decode_utf8 bs = utf8 (map of_char bs)"

subsubsection \<open>\<^verbatim>\<open>str.lower()\<close>\<close>

definition ascii_lower :: "nat \<Rightarrow> nat" where
  "ascii_lower c = (if 65 \<le> c \<and> c \<le> 90 then c + 32 else c)"

text \<open>
  On text of ASCII code points \<^verbatim>\<open>lower\<close> maps \<^verbatim>\<open>A-Z\<close> to \<^verbatim>\<open>a-z\<close>. On other text
  it follows the case tables of the Unicode database, which are no part of this
  program: \<open>unicode_lower\<close> stands for them.
\<close>

definition str_lower :: "(pystr \<Rightarrow> pystr) \<Rightarrow> pystr \<Rightarrow> pystr" where
  "str_lower unicode_lower s =
     (if list_all (\<lambda>c. c < 128) s then map ascii_lower s else unicode_lower s)"

subsubsection \<open>\<^verbatim>\<open>struct.pack('>L', n)\<close> and \<^verbatim>\<open>f'{b:02x}'\<close>\<close>

definition struct_pack_L :: "int \<Rightarrow> nat list option" where
  "struct_pack_L n =
     (if 0 \<le> n \<and> n < 4294967296
      then Some [nat (n div 16777216 mod 256), nat (n div 65536 mod 256),
                 nat (n div 256 mod 256), nat (n mod 256)]
      else None)"

definition hex_digit :: "nat \<Rightarrow> nat" where
  "hex_digit d = (if d < 10 then 48 + d else 87 + d)"

definition format_02x :: "nat \<Rightarrow> pystr" where
  "format_02x b = [hex_digit (b div 16), hex_digit (b mod 16)]"

subsubsection \<open>\<^verbatim>\<open>str.replace('tttttttt', new)\<close>\<close>

definition token :: pystr where
  "token = [116, 116, 116, 116, 116, 116, 116, 116]"

text \<open>Occurrences are found left to right and do not overlap.\<close>

fun str_replace :: "pystr \<Rightarrow> pystr \<Rightarrow> pystr" where
  "str_replace new [] = []"
| "str_replace new (c # cs) =
     (if take 8 (c # cs) = token then new @ str_replace new (drop 7 cs)
      else c # str_replace new cs)"

subsubsection \<open>\<^verbatim>\<open>re.match(r'^[a-f0-9]+$', s)\<close>\<close>

definition in_class :: "nat \<Rightarrow> bool" where
  "in_class c = ((48 \<le> c \<and> c \<le> 57) \<or> (97 \<le> c \<and> c \<le> 102))"

text \<open>
  The class is matched greedily one or more times from the start. Without
  \<^verbatim>\<open>re.MULTILINE\<close>, \<^verbatim>\<open>$\<close> matches at the end of the string and also just before a
  newline that is the last character.
\<close>

definition re_match :: "pystr \<Rightarrow> bool" where
  "re_match s =
     (takeWhile in_class s \<noteq> [] \<and>
      (dropWhile in_class s = [] \<or> dropWhile in_class s = [10]))"

subsubsection \<open>\<^verbatim>\<open>bytes.fromhex(s)\<close>\<close>

definition is_space :: "nat \<Rightarrow> bool" where
  "is_space c = (c = 32 \<or> (9 \<le> c \<and> c \<le> 13))"

definition hexval :: "nat \<Rightarrow> nat option" where
  "hexval c =
     (if 48 \<le> c \<and> c \<le> 57 then Some (c - 48)
      else if 97 \<le> c \<and> c \<le> 102 then Some (c - 87)
      else if 65 \<le> c \<and> c \<le> 70 then Some (c - 55)
      else None)"

text \<open>
  ASCII whitespace is skipped before a pair of digits; the two digits of a pair are
  adjacent. \<open>None\<close> is \<^verbatim>\<open>ValueError\<close>.
\<close>

fun bytes_fromhex :: "pystr \<Rightarrow> bytes option" where
  "bytes_fromhex [] = Some []"
| "bytes_fromhex [c] = (if is_space c then Some [] else None)"
| "bytes_fromhex (c # d # cs) =
     (if is_space c then bytes_fromhex (d # cs)
      else (case hexval c of
              None \<Rightarrow> None
            | Some t \<Rightarrow>
                (case hexval d of
                   None \<Rightarrow> None
                 | Some b \<Rightarrow> map_option ((#) (char_of (t * 16 + b))) (bytes_fromhex cs))))"

subsubsection \<open>Numbers\<close>

text \<open>
  Python's numbers are modelled exactly: a \<^verbatim>\<open>float\<close> is a rational, \<^verbatim>\<open>/\<close> is the
  quotient and \<^verbatim>\<open>x % y\<close> has the sign of \<open>y\<close>. Rounding to a double is left out.
\<close>

definition pymod :: "rat \<Rightarrow> rat \<Rightarrow> rat" where
  "pymod x y = x - y * of_int \<lfloor>x / y\<rfloor>"

fun str_nat :: "nat \<Rightarrow> string" where
  "str_nat n =
     (if n < 10 then [char_of (48 + n)]
      else str_nat (n div 10) @ [char_of (48 + n mod 10)])"

subsection \<open>Configuration, collaborators and state\<close>

text \<open>
  One entry of \<^verbatim>\<open>ahoy.inverters\<close>. \<open>serial\<close> is \<^verbatim>\<open>str(inverter.get('serial'))\<close>, the
  only form in which this file looks at a serial; \<open>mqtt_topic\<close> is
  \<^verbatim>\<open>inverter.get('mqtt', {}).get('topic')\<close>, \<open>None\<close> when the key is absent; the two
  flags are the truth values of \<^verbatim>\<open>disabled\<close> and \<^verbatim>\<open>mqtt.send_raw_enabled\<close>.
\<close>

record inverter =
  serial :: string
  disabled :: bool
  mqtt_topic :: "string option"
  send_raw_enabled :: bool

text \<open>
  \<open>mqtt\<close> is \<open>None\<close> when the section is absent (the code then takes the list
  \<^verbatim>\<open>[]\<close>), otherwise the truth value of its \<^verbatim>\<open>disabled\<close> key. \<open>interval\<close> is
  \<^verbatim>\<open>ahoy_config.get('interval', 1)\<close>.
\<close>

record ahoy_config =
  inverters :: "inverter list"
  mqtt :: "bool option"
  dtu_serial :: string
  interval :: rat

record phase =
  p_voltage :: rat
  p_current :: rat
  p_power :: rat

record dc_string =
  s_voltage :: rat
  s_current :: rat
  s_power :: rat
  energy_total :: rat
  energy_daily :: rat

record status =
  phases :: "phase list"
  strings :: "dc_string list"
  frequency :: rat
  temperature :: rat

text \<open>
  The functions of the \<^verbatim>\<open>hoymiles\<close> package and of the Python runtime that this file
  calls and that are not part of it. \<open>decode response request inverter_ser\<close> is
  \<^verbatim>\<open>ResponseDecoder(...).decode()\<close>: the data of a \<^verbatim>\<open>StatusResponse\<close>, or \<open>None\<close>
  for any other result. \<open>compose_set_time_payload\<close> takes the clock it reads.
\<close>

record externals =
  frame_payload :: "bytes \<Rightarrow> bytes"
  compose_set_time_payload :: "int \<Rightarrow> bytes"
  decode :: "bytes \<Rightarrow> bytes \<Rightarrow> string \<Rightarrow> status option"
  unicode_lower :: "pystr \<Rightarrow> pystr"

text \<open>
  The calls that leave the program: \<^verbatim>\<open>radio.begin()\<close>, \<^verbatim>\<open>mqtt_client.subscribe\<close>,
  \<^verbatim>\<open>broker.publish\<close>, the construction of a \<^verbatim>\<open>hoymiles.InverterTransaction\<close> (source,
  destination, payload), \<^verbatim>\<open>time.sleep\<close>, \<^verbatim>\<open>radio.powerDown()\<close> and \<^verbatim>\<open>sys.exit()\<close>.
\<close>

datatype effect =
    RadioBegin
  | Subscribe string
  | Publish string rat
  | Transaction string string bytes
  | Sleep rat
  | PowerDown
  | SysExit

text \<open>\<open>mqtt_client\<close> is \<open>False\<close> while the global is \<^verbatim>\<open>None\<close>.\<close>

record state =
  command_queue :: "string \<rightharpoonup> bytes list"
  mqtt_command_topic_subs :: "(string \<times> string) list"
  mqtt_client :: bool
  effects :: "effect list"

record message =
  topic :: string
  payload :: bytes

subsection \<open>\<^verbatim>\<open>mqtt_send_status\<close>\<close>

fun publish_phases :: "string \<Rightarrow> nat \<Rightarrow> phase list \<Rightarrow> effect list" where
  "publish_phases tp phase_id [] = []"
| "publish_phases tp phase_id (ph # rest) =
     [Publish (tp @ ''/emeter/'' @ str_nat phase_id @ ''/power'') (p_power ph),
      Publish (tp @ ''/emeter/'' @ str_nat phase_id @ ''/voltage'') (p_voltage ph),
      Publish (tp @ ''/emeter/'' @ str_nat phase_id @ ''/current'') (p_current ph)]
     @ publish_phases tp (phase_id + 1) rest"

fun publish_strings :: "string \<Rightarrow> nat \<Rightarrow> dc_string list \<Rightarrow> effect list" where
  "publish_strings tp string_id [] = []"
| "publish_strings tp string_id (s # rest) =
     [Publish (tp @ ''/emeter-dc/'' @ str_nat string_id @ ''/total'') (energy_total s / 1000),
      Publish (tp @ ''/emeter-dc/'' @ str_nat string_id @ ''/power'') (s_power s),
      Publish (tp @ ''/emeter-dc/'' @ str_nat string_id @ ''/voltage'') (s_voltage s),
      Publish (tp @ ''/emeter-dc/'' @ str_nat string_id @ ''/current'') (s_current s)]
     @ publish_strings tp (string_id + 1) rest"

text \<open>\<^verbatim>\<open>if not topic: topic = f'hoymiles/{inverter_ser}'\<close>.\<close>

definition status_topic :: "string \<Rightarrow> string option \<Rightarrow> string" where
  "status_topic inverter_ser tpc =
     (case tpc of
        None \<Rightarrow> ''hoymiles/'' @ inverter_ser
      | Some t \<Rightarrow> if t = [] then ''hoymiles/'' @ inverter_ser else t)"

text \<open>The publish calls of one status record, in the order they are made.\<close>

definition mqtt_send_status :: "string \<Rightarrow> status \<Rightarrow> string option \<Rightarrow> effect list" where
  "mqtt_send_status inverter_ser data tpc =
     (let tp = status_topic inverter_ser tpc
      in publish_phases tp 0 (phases data)
         @ publish_strings tp 0 (strings data)
         @ [Publish (tp @ ''/frequency'') (frequency data),
            Publish (tp @ ''/temperature'') (temperature data)])"

subsection \<open>\<^verbatim>\<open>mqtt_on_command\<close>\<close>

text \<open>
  \<^verbatim>\<open>next(item[0] for item in mqtt_command_topic_subs if item[1] == message.topic)\<close>:
  the serial of the first entry with that topic, \<open>None\<close> for \<^verbatim>\<open>StopIteration\<close>.
\<close>

fun lookup_topic :: "(string \<times> string) list \<Rightarrow> string \<Rightarrow> string option" where
  "lookup_topic [] t = None"
| "lookup_topic (item # rest) t = (if snd item = t then Some (fst item) else lookup_topic rest t)"

definition expand_time :: "int \<Rightarrow> pystr option" where
  "expand_time now = map_option (\<lambda>bs. concat (map format_02x bs)) (struct_pack_L now)"

text \<open>
  The command text after lines 157 to 161: the payload decoded and lower-cased, then
  every \<^verbatim>\<open>tttttttt\<close> replaced by the time. \<open>now\<close> is \<^verbatim>\<open>int(time.time())\<close>.
\<close>

definition p_message :: "externals \<Rightarrow> int \<Rightarrow> message \<Rightarrow> error + pystr" where
  "p_message ext now msg =
     (case decode_utf8 (payload msg) of
        None \<Rightarrow> Inl UnicodeDecodeError
      | Some txt \<Rightarrow>
          (case expand_time now of
             None \<Rightarrow> Inl StructError
           | Some et \<Rightarrow> Inr (str_replace et (str_lower (unicode_lower ext) txt))))"

text \<open>
  The function returns the exception that leaves it, if any, and the state it leaves
  behind. When no entry has the topic, \<^verbatim>\<open>StopIteration\<close> is caught and reported;
  \<^verbatim>\<open>inverter_ser\<close>, a local of the function since it is assigned there, is then
  unbound and the test \<^verbatim>\<open>if inverter_ser:\<close> raises \<^verbatim>\<open>UnboundLocalError\<close>. The test
  is false for the empty serial.
\<close>

definition mqtt_on_command ::
  "externals \<Rightarrow> int \<Rightarrow> message \<Rightarrow> state \<Rightarrow> error option \<times> state" where
  "mqtt_on_command ext now msg st =
     (case lookup_topic (mqtt_command_topic_subs st) (topic msg) of
        None \<Rightarrow> (Some UnboundLocalError, st)
      | Some inverter_ser \<Rightarrow>
          if inverter_ser = [] then (None, st)
          else
            (case p_message ext now msg of
               Inl e \<Rightarrow> (Some e, st)
             | Inr pm \<Rightarrow>
                 if length pm < 2048 \<and> length pm mod 2 = 0 \<and> re_match pm
                 then
                   (case bytes_fromhex pm of
                      None \<Rightarrow> (Some ValueError, st)
                    | Some [] \<Rightarrow> (Some IndexError, st)
                    | Some (b # rest) \<Rightarrow>
                        if b = CHR 0x80
                        then
                          (case command_queue st inverter_ser of
                             None \<Rightarrow> (Some KeyError, st)
                           | Some q \<Rightarrow>
                               (None,
                                st\<lparr>command_queue := (command_queue st)
                                     (inverter_ser \<mapsto> q @ [frame_payload ext rest])\<rparr>))
                        else (None, st))
                 else (None, st)))"

subsection \<open>\<^verbatim>\<open>poll_inverter\<close>\<close>

text \<open>
  What the radio does in one transaction is given from outside, as the list of the
  passes of \<^verbatim>\<open>while com.rxtx():\<close>. In a pass \<^verbatim>\<open>com.get_payload()\<close> returns a payload
  (\<open>Extracted\<close>) or raises an \<^verbatim>\<open>Exception\<close>, which is caught and printed (\<open>Failed\<close>);
  or the process is interrupted there (\<open>Interrupt\<close>: \<^verbatim>\<open>KeyboardInterrupt\<close> is no
  \<^verbatim>\<open>Exception\<close> and leaves the function). At the end of the list \<^verbatim>\<open>com.rxtx()\<close> is
  false.
\<close>

datatype rx = Extracted bytes | Failed | Interrupt

text \<open>The inner loop, on the pair (\<^verbatim>\<open>response\<close>, \<^verbatim>\<open>payload_ttl\<close>).\<close>

fun rxtx_loop :: "rx list \<Rightarrow> bytes option \<times> nat \<Rightarrow> error + bytes option \<times> nat" where
  "rxtx_loop [] s = Inr s"
| "rxtx_loop (Extracted p # rest) (response, payload_ttl) = rxtx_loop rest (Some p, 0)"
| "rxtx_loop (Failed # rest) s = rxtx_loop rest s"
| "rxtx_loop (Interrupt # rest) s = Inl KeyboardInterrupt"

lemma rxtx_loop_ttl:
  "rxtx_loop xs (r, t) = Inr (r', t') \<Longrightarrow> t' \<le> t"
  by (induction xs "(r, t)" arbitrary: r t rule: rxtx_loop.induct) auto

text \<open>
  The outer loop \<^verbatim>\<open>while payload_ttl > 0:\<close>. \<open>radio k\<close> is the behaviour of the radio
  in the transaction number \<open>k\<close> of this poll, \<open>tx\<close> the transaction that every turn
  constructs anew, \<open>effs\<close> the calls made so far.
\<close>

function retry ::
  "(nat \<Rightarrow> rx list) \<Rightarrow> effect \<Rightarrow> nat \<Rightarrow> nat \<Rightarrow> bytes option \<Rightarrow> effect list
     \<Rightarrow> (error + bytes option) \<times> effect list" where
  "retry radio tx k payload_ttl response effs =
     (if payload_ttl > 0
      then (case rxtx_loop (radio k) (None, payload_ttl - 1) of
              Inl e \<Rightarrow> (Inl e, effs @ [tx])
            | Inr (response', payload_ttl') \<Rightarrow>
                retry radio tx (k + 1) payload_ttl' response' (effs @ [tx]))
      else (Inr response, effs))"
  by pat_completeness auto
termination
  by (relation "measure (\<lambda>(radio, tx, k, payload_ttl, response, effs). payload_ttl)")
     (auto dest: rxtx_loop_ttl)

declare retry.simps [simp del]

text \<open>
  \<open>now\<close> is the clock that \<^verbatim>\<open>hoymiles.compose_set_time_payload()\<close> reads.
  \<^verbatim>\<open>if response:\<close> holds for a payload that is not empty. The lines printed to the
  console are left out.
\<close>

definition poll_inverter ::
  "externals \<Rightarrow> string \<Rightarrow> int \<Rightarrow> (nat \<Rightarrow> rx list) \<Rightarrow> inverter \<Rightarrow> state
     \<Rightarrow> error option \<times> state" where
  "poll_inverter ext dtu_ser now radio inverter st =
     (let inverter_ser = serial inverter in
      case command_queue st inverter_ser of
        None \<Rightarrow> (Some KeyError, st)
      | Some q \<Rightarrow>
          (let (pl, st1) =
                 (case q of
                    p # rest \<Rightarrow> (p, st\<lparr>command_queue := (command_queue st)(inverter_ser \<mapsto> rest)\<rparr>)
                  | [] \<Rightarrow> (compose_set_time_payload ext now, st))
           in case retry radio (Transaction dtu_ser inverter_ser pl) 0 4 None (effects st1) of
                (Inl e, effs) \<Rightarrow> (Some e, st1\<lparr>effects := effs\<rparr>)
              | (Inr response, effs) \<Rightarrow>
                  (let st2 = st1\<lparr>effects := effs\<rparr> in
                   case response of
                     None \<Rightarrow> (None, st2)
                   | Some r \<Rightarrow>
                       if r \<noteq> []
                       then (case decode ext r pl inverter_ser of
                               Some data \<Rightarrow>
                                 if mqtt_client st2
                                 then (None, st2\<lparr>effects := effects st2
                                         @ mqtt_send_status inverter_ser data
                                             (mqtt_topic inverter)\<rparr>)
                                 else (None, st2)
                             | None \<Rightarrow> (None, st2))
                       else (None, st2))))"

subsection \<open>\<^verbatim>\<open>main_loop\<close>\<close>

text \<open>
  One cycle of the program, as the world presents it: the clock and the radio at the
  poll of the \<open>i\<close>-th enabled inverter, the value of \<^verbatim>\<open>time.time()\<close> when the cycle
  goes to sleep, and whether the process is interrupted during that sleep.
\<close>

record cycle =
  poll_clock :: "nat \<Rightarrow> int"
  poll_radio :: "nat \<Rightarrow> nat \<Rightarrow> rx list"
  sleep_clock :: rat
  sleep_interrupt :: bool

fun poll_each ::
  "externals \<Rightarrow> string \<Rightarrow> cycle \<Rightarrow> nat \<Rightarrow> inverter list \<Rightarrow> state \<Rightarrow> error option \<times> state" where
  "poll_each ext dtu_ser cyc i [] st = (None, st)"
| "poll_each ext dtu_ser cyc i (inverter # rest) st =
     (case poll_inverter ext dtu_ser (poll_clock cyc i) (poll_radio cyc i) inverter st of
        (Some e, st1) \<Rightarrow> (Some e, st1)
      | (None, st1) \<Rightarrow> poll_each ext dtu_ser cyc (i + 1) rest st1)"

definition main_loop ::
  "externals \<Rightarrow> ahoy_config \<Rightarrow> cycle \<Rightarrow> state \<Rightarrow> error option \<times> state" where
  "main_loop ext cfg cyc st =
     poll_each ext (dtu_serial cfg) cyc 0
       (filter (\<lambda>inverter. \<not> disabled inverter) (inverters cfg)) st"

subsection \<open>The program: start and poll loop\<close>



text \<open>
  \<^verbatim>\<open>if loop_interval: time.sleep(time.time() % loop_interval)\<close>. \<^verbatim>\<open>time.sleep\<close> refuses
  a negative length.
\<close>

definition sleep_step :: "rat \<Rightarrow> cycle \<Rightarrow> state \<Rightarrow> error option \<times> state" where
  "sleep_step loop_interval cyc st =
     (if loop_interval \<noteq> 0
      then (let d = pymod (sleep_clock cyc) loop_interval
            in if d < 0 then (Some ValueError, st)
               else (if sleep_interrupt cyc then Some KeyboardInterrupt else None,
                     st\<lparr>effects := effects st @ [Sleep d]\<rparr>))
      else (None, st))"

text \<open>The body of the loop: \<^verbatim>\<open>main_loop()\<close>, then the sleep.\<close>

definition cycle_body ::
  "externals \<Rightarrow> ahoy_config \<Rightarrow> cycle \<Rightarrow> state \<Rightarrow> error option \<times> state" where
  "cycle_body ext cfg cyc st =
     (case main_loop ext cfg cyc st of
        (Some e, st1) \<Rightarrow> (Some e, st1)
      | (None, st1) \<Rightarrow> sleep_step (interval cfg) cyc st1)"

datatype run = Running | Exited | Died error

text \<open>
  \<^verbatim>\<open>try: while True: ... except KeyboardInterrupt: radio.powerDown(); sys.exit()\<close>, on
  the cycles given; \<open>Running\<close> when they are used up. Any other exception leaves the
  program as it is.
\<close>

fun poll_loop :: "externals \<Rightarrow> ahoy_config \<Rightarrow> cycle list \<Rightarrow> state \<Rightarrow> run \<times> state" where
  "poll_loop ext cfg [] st = (Running, st)"
| "poll_loop ext cfg (cyc # rest) st =
     (case cycle_body ext cfg cyc st of
        (None, st2) \<Rightarrow> poll_loop ext cfg rest st2
      | (Some e, st2) \<Rightarrow>
          if e = KeyboardInterrupt
          then (Exited, st2\<lparr>effects := effects st2 @ [PowerDown, SysExit]\<rparr>)
          else (Died e, st2))"

subsection \<open>Observations\<close>

text \<open>
  The properties speak about the calls a function makes. \<open>requests\<close> selects the
  transactions from a list of calls, each as the pair of its destination and its
  payload; \<open>is_publish\<close> holds for the calls of \<^verbatim>\<open>broker.publish\<close>.
\<close>

definition requests :: "effect list \<Rightarrow> (string \<times> bytes) list" where
  "requests es =
     concat (map (\<lambda>e. case e of Transaction src dst pl \<Rightarrow> [(dst, pl)] | _ \<Rightarrow> []) es)"

fun is_publish :: "effect \<Rightarrow> bool" where
  "is_publish (Publish t v) = True"
| "is_publish e = False"

text \<open>
  A transaction in which some pass extracts a response payload (before the process is
  interrupted, if it is).
\<close>

fun extracted :: "rx list \<Rightarrow> bool" where
  "extracted [] = False"
| "extracted (Extracted p # rest) = True"
| "extracted (Failed # rest) = extracted rest"
| "extracted (Interrupt # rest) = False"

text \<open>
  Consecutive polls of one inverter, each with its clock and its radio, while nothing
  is enqueued in between; an exception ends them.
\<close>

fun polls ::
  "externals \<Rightarrow> string \<Rightarrow> (int \<times> (nat \<Rightarrow> rx list)) list \<Rightarrow> inverter \<Rightarrow> state
     \<Rightarrow> error option \<times> state" where
  "polls ext dtu_ser [] inverter st = (None, st)"
| "polls ext dtu_ser ((now, radio) # rest) inverter st =
     (case poll_inverter ext dtu_ser now radio inverter st of
        (Some e, st1) \<Rightarrow> (Some e, st1)
      | (None, st1) \<Rightarrow> polls ext dtu_ser rest inverter st1)"

subsection \<open>Examples\<close>

text \<open>
  Collaborators, configurations and states on which the properties below are
  evaluated. The frame of \<open>ex_ext\<close> appends two bytes where the library appends a
  checksum.
\<close>

definition ex_ext :: externals where
  "ex_ext = \<lparr>frame_payload = (\<lambda>b. b @ [CHR 0x12, CHR 0x34]),
             compose_set_time_payload = (\<lambda>n. [CHR 0x0B, CHR 0x00]),
             decode = (\<lambda>response request inverter_ser. None),
             unicode_lower = (\<lambda>s. s)\<rparr>"

definition ex_inverter :: inverter where
  "ex_inverter = \<lparr>serial = ''114'', disabled = False, mqtt_topic = None,
                  send_raw_enabled = True\<rparr>"

definition ex_config :: ahoy_config where
  "ex_config = \<lparr>inverters = [ex_inverter], mqtt = Some False, dtu_serial = ''99'',
                interval = 10\<rparr>"

text \<open>The state in which \<open>startup\<close> leaves the program on \<open>ex_config\<close>.\<close>

definition ex_state :: state where
  "ex_state = \<lparr>command_queue = [''114'' \<mapsto> []],
               mqtt_command_topic_subs = [(''114'', ''hoymiles/114/command'')],
               mqtt_client = True,
               effects = [RadioBegin, Subscribe ''hoymiles/114/command'']\<rparr>"



text \<open>
  A radio that answers in the second transaction of a poll, and one that is
  interrupted in the first.
\<close>

definition ex_radio :: "nat \<Rightarrow> rx list" where
  "ex_radio k = (if k = 1 then [Failed, Extracted ''R''] else [Failed])"

definition ex_radio_interrupted :: "nat \<Rightarrow> rx list" where
  "ex_radio_interrupted k = [Failed, Interrupt]"

text \<open>The state \<open>ex_state\<close> with two commands waiting.\<close>

definition ex_state_queued :: state where
  "ex_state_queued = ex_state\<lparr>command_queue := [''114'' \<mapsto> [''A'', ''B'']]\<rparr>"

text \<open>A status record of three phases and two strings.\<close>

definition ex_status :: status where
  "ex_status =
     \<lparr>phases = [\<lparr>p_voltage = 230, p_current = 1, p_power = 230\<rparr>,
                \<lparr>p_voltage = 231, p_current = 2, p_power = 462\<rparr>,
                \<lparr>p_voltage = 229, p_current = 3, p_power = 687\<rparr>],
      strings = [\<lparr>s_voltage = 30, s_current = 8, s_power = 240,
                  energy_total = 123456, energy_daily = 789\<rparr>,
                 \<lparr>s_voltage = 31, s_current = 9, s_power = 279,
                  energy_total = 5000, energy_daily = 12\<rparr>],
      frequency = 50, temperature = 25\<rparr>"

text \<open>
  A cycle that ends at the time 1700000003, and one in which the radio is
  interrupted.
\<close>

definition ex_cycle :: cycle where
  "ex_cycle = \<lparr>poll_clock = (\<lambda>i. 1700000000), poll_radio = (\<lambda>i. ex_radio),
               sleep_clock = 1700000003, sleep_interrupt = False\<rparr>"

definition ex_cycle_interrupted :: cycle where
  "ex_cycle_interrupted =
     \<lparr>poll_clock = (\<lambda>i. 1700000010), poll_radio = (\<lambda>i. ex_radio_interrupted),
      sleep_clock = 1700000013, sleep_interrupt = False\<rparr>"

text \<open>\<open>ex_config\<close> with the message bus disabled.\<close>

definition ex_config_nobus :: ahoy_config where
  "ex_config_nobus = ex_config\<lparr>mqtt := Some True\<rparr>"

section \<open>Properties of the command channel\<close>

subsection \<open>The validation of a command text\<close>


lemma lookup_topic_None: "lookup_topic subs t = None \<longleftrightarrow> t \<notin> snd ` set subs"
  by (induction subs) auto


lemma re_match_cases:
  assumes "re_match s"
  shows "s \<noteq> [] \<and> (list_all in_class s \<or> (\<exists>h. s = h @ [10] \<and> h \<noteq> [] \<and> list_all in_class h))"
proof -
  let ?h = "takeWhile in_class s"
  have s: "s = ?h @ dropWhile in_class s" by simp
  have h: "list_all in_class ?h" by (simp add: list_all_iff) (meson set_takeWhileD)
  from assms have ne: "?h \<noteq> []" and d: "dropWhile in_class s = [] \<or> dropWhile in_class s = [10]"
    by (simp_all add: re_match_def)
  from d show ?thesis
  proof
    assume "dropWhile in_class s = []"
    with s have "s = ?h" by simp
    with h ne show ?thesis by metis
  next
    assume "dropWhile in_class s = [10]"
    with s have "s = ?h @ [10]" by simp
    with h ne show ?thesis by blast
  qed
qed

lemma in_class_hex: "in_class c \<Longrightarrow> \<not> is_space c \<and> (\<exists>v. hexval c = Some v)"
  by (auto simp: in_class_def is_space_def hexval_def)

lemma fromhex_newline:
  "list_all in_class h \<Longrightarrow> odd (length h) \<Longrightarrow> bytes_fromhex (h @ [10]) = None"
proof (induction h rule: bytes_fromhex.induct)
  case 1
  then show ?case by simp
next
  case (2 c)
  then show ?case using in_class_hex[of c] by (auto simp: hexval_def)
next
  case (3 c d cs)
  then show ?case using in_class_hex[of c] in_class_hex[of d] by auto
qed

lemma fromhex_class_len:
  "list_all in_class s \<Longrightarrow> even (length s)
     \<Longrightarrow> \<exists>bs. bytes_fromhex s = Some bs \<and> 2 * length bs = length s"
proof (induction s rule: bytes_fromhex.induct)
  case 1
  then show ?case by simp
next
  case (2 c)
  then show ?case by simp
next
  case (3 c d cs)
  from "3.prems" have c: "\<not> is_space c" and d: "\<not> is_space d"
    using in_class_hex[of c] in_class_hex[of d] by auto
  from "3.prems" obtain t b where t: "hexval c = Some t" and b: "hexval d = Some b"
    using in_class_hex[of c] in_class_hex[of d] by auto
  from "3.prems" have "list_all in_class cs" "even (length cs)" by auto
  with "3.IH"(2)[OF c t b] obtain bs where "bytes_fromhex cs = Some bs" "2 * length bs = length cs"
    by blast
  with c t b show ?case by simp
qed

lemma fromhex_class:
  assumes "list_all in_class s" "even (length s)" "s \<noteq> []"
  shows "\<exists>b rest. bytes_fromhex s = Some (b # rest)"
proof -
  from fromhex_class_len[OF assms(1,2)] obtain bs
    where bs: "bytes_fromhex s = Some bs" "2 * length bs = length s" by blast
  with assms(3) have "bs \<noteq> []" by auto
  with bs(1) show ?thesis by (cases bs) auto
qed

lemma fromhex_validated:
  assumes "re_match s" "even (length s)"
  shows "bytes_fromhex s \<noteq> Some []"
proof -
  from re_match_cases[OF assms(1)] have ne: "s \<noteq> []"
    and c: "list_all in_class s \<or> (\<exists>h. s = h @ [10] \<and> h \<noteq> [] \<and> list_all in_class h)" by auto
  from c show ?thesis
  proof
    assume "list_all in_class s"
    from fromhex_class[OF this assms(2) ne] show ?thesis by auto
  next
    assume "\<exists>h. s = h @ [10] \<and> h \<noteq> [] \<and> list_all in_class h"
    then obtain h where h: "s = h @ [10]" "list_all in_class h" by blast
    with assms(2) have "odd (length h)" by simp
    from fromhex_newline[OF h(2) this] h(1) show ?thesis by simp
  qed
qed

lemma fromhex_not_class:
  assumes "re_match s" "even (length s)" "\<not> list_all in_class s"
  shows "bytes_fromhex s = None"
proof -
  from re_match_cases[OF assms(1)] assms(3)
  obtain h where h: "s = h @ [10]" "list_all in_class h" by blast
  with assms(2) have "odd (length h)" by simp
  from fromhex_newline[OF h(2) this] h(1) show ?thesis by simp
qed

subsection \<open>Messages on unknown topics\<close>

text \<open>
  C1. A message whose topic is the topic of no entry of the subscription table leaves
  the state as it was: no queue gets an entry (and nothing is published).
\<close>

theorem mqtt_on_command_unknown_topic:
  assumes "topic msg \<notin> snd ` set (mqtt_command_topic_subs st)"
  shows "snd (mqtt_on_command ext now msg st) = st"
  using assms by (simp add: mqtt_on_command_def lookup_topic_None[THEN iffD2])

theorem mqtt_on_command_unknown_topic_witness:
  "''hoymiles/999/command'' \<notin> snd ` set (mqtt_command_topic_subs ex_state)
   \<and> snd (mqtt_on_command ex_ext 1700000000
             \<lparr>topic = ''hoymiles/999/command'', payload = ''80''\<rparr> ex_state) = ex_state"
proof -
  have h: "topic \<lparr>topic = ''hoymiles/999/command'', payload = ''80''\<rparr>
             \<notin> snd ` set (mqtt_command_topic_subs ex_state)"
    by (simp add: ex_state_def)
  from mqtt_on_command_unknown_topic [OF h] h show ?thesis by simp
qed

text \<open>The function does not return there: the unbound local ends it.\<close>

lemma mqtt_on_command_unknown_topic_raises:
  assumes "topic msg \<notin> snd ` set (mqtt_command_topic_subs st)"
  shows "fst (mqtt_on_command ext now msg st) = Some UnboundLocalError"
  using assms by (simp add: mqtt_on_command_def lookup_topic_None[THEN iffD2])

subsection \<open>Rejected commands\<close>

text \<open>
  C7. When the expanded command text has odd length, or 2048 characters or more, or a
  character outside \<^verbatim>\<open>[a-f0-9]\<close>, or decodes to bytes of which the first is not
  \<^verbatim>\<open>0x80\<close>, the state after \<open>mqtt_on_command\<close> is the state before it: nothing is
  enqueued, no queue changes and nothing is sent to anyone.
\<close>

theorem mqtt_on_command_rejects:
  assumes "p_message ext now msg = Inr pm"
    and "odd (length pm) \<or> 2048 \<le> length pm \<or> \<not> list_all in_class pm
         \<or> (\<exists>b rest. bytes_fromhex pm = Some (b # rest) \<and> b \<noteq> CHR 0x80)"
  shows "snd (mqtt_on_command ext now msg st) = st"
proof (cases "length pm < 2048 \<and> length pm mod 2 = 0 \<and> re_match pm")
  case False
  with assms(1) show ?thesis
    by (auto simp: mqtt_on_command_def split: option.splits)
next
  case True
  then have ev: "even (length pm)" by presburger
  from True assms(2) ev
  have "\<not> list_all in_class pm \<or> (\<exists>b rest. bytes_fromhex pm = Some (b # rest) \<and> b \<noteq> CHR 0x80)"
    by auto
  then show ?thesis
  proof
    assume "\<not> list_all in_class pm"
    with True ev have "bytes_fromhex pm = None" by (simp add: fromhex_not_class)
    with assms(1) show ?thesis
      by (auto simp: mqtt_on_command_def split: option.splits)
  next
    assume "\<exists>b rest. bytes_fromhex pm = Some (b # rest) \<and> b \<noteq> CHR 0x80"
    with assms(1) show ?thesis
      by (auto simp: mqtt_on_command_def split: option.splits)
  qed
qed

theorem mqtt_on_command_rejects_witness:
  "p_message ex_ext 1700000000 \<lparr>topic = ''hoymiles/114/command'', payload = ''80G0''\<rparr>
     = Inr (ustr ''80g0'')
   \<and> \<not> list_all in_class (ustr ''80g0'')
   \<and> snd (mqtt_on_command ex_ext 1700000000
             \<lparr>topic = ''hoymiles/114/command'', payload = ''80G0''\<rparr> ex_state) = ex_state"
proof -
  have h1: "p_message ex_ext 1700000000
              \<lparr>topic = ''hoymiles/114/command'', payload = ''80G0''\<rparr> = Inr (ustr ''80g0'')"
    by (simp add: p_message_def decode_utf8_def expand_time_def struct_pack_L_def
        format_02x_def hex_digit_def str_lower_def ascii_lower_def token_def ex_ext_def
        ustr_def)
  have h2: "\<not> list_all in_class (ustr ''80g0'')"
    by (simp add: in_class_def ustr_def)
  from h2 have h3: "odd (length (ustr ''80g0'')) \<or> 2048 \<le> length (ustr ''80g0'')
      \<or> \<not> list_all in_class (ustr ''80g0'')
      \<or> (\<exists>b rest. bytes_fromhex (ustr ''80g0'') = Some (b # rest) \<and> b \<noteq> CHR 0x80)"
    by blast
  from mqtt_on_command_rejects [OF h1 h3] h1 h2 show ?thesis by simp
qed

subsection \<open>Accepted commands\<close>




subsection \<open>The first byte of the decoded command\<close>

text \<open>
  C9. The text \<^verbatim>\<open>80a\<close> followed by a newline has four characters and passes the
  three tests of line 163, since \<^verbatim>\<open>$\<close> matches before a final newline. It is no
  string of hexadecimal digits, and \<^verbatim>\<open>bytes.fromhex\<close> raises \<^verbatim>\<open>ValueError\<close>, which
  leaves the function.
\<close>

theorem mqtt_on_command_trailing_newline:
  "p_message ex_ext 1700000000
     \<lparr>topic = ''hoymiles/114/command'', payload = ''80a'' @ [CHR 0x0A]\<rparr>
     = Inr (ustr ''80a'' @ [10])
   \<and> length (ustr ''80a'' @ [10]) < 2048
   \<and> length (ustr ''80a'' @ [10]) mod 2 = 0
   \<and> re_match (ustr ''80a'' @ [10])
   \<and> \<not> list_all in_class (ustr ''80a'' @ [10])
   \<and> bytes_fromhex (ustr ''80a'' @ [10]) = None
   \<and> mqtt_on_command ex_ext 1700000000
        \<lparr>topic = ''hoymiles/114/command'', payload = ''80a'' @ [CHR 0x0A]\<rparr> ex_state
       = (Some ValueError, ex_state)"
  by (simp add: ex_state_def
      mqtt_on_command_def p_message_def decode_utf8_def expand_time_def struct_pack_L_def
      format_02x_def hex_digit_def str_lower_def ascii_lower_def token_def ex_ext_def
      ustr_def in_class_def is_space_def hexval_def re_match_def)

text \<open>
  The access \<^verbatim>\<open>payload[0]\<close> itself is never out of bounds: a text that passes the
  tests and decodes has at least two digits.
\<close>

lemma mqtt_on_command_index_in_bounds:
  "fst (mqtt_on_command ext now msg st) \<noteq> Some IndexError"
proof -
  have "bytes_fromhex pm \<noteq> Some []" if "length pm mod 2 = 0" "re_match pm" for pm
    using that fromhex_validated[of pm] by presburger
  then show ?thesis
    by (auto simp: mqtt_on_command_def p_message_def split: option.splits sum.splits list.splits if_splits)
qed

section \<open>Properties of the poll\<close>

subsection \<open>The calls of one poll\<close>

lemma requests_Nil: "requests [] = []"
  by (simp add: requests_def)

lemma requests_append: "requests (a @ b) = requests a @ requests b"
  by (simp add: requests_def)

lemma requests_replicate: "requests (replicate n (Transaction src dst pl)) = replicate n (dst, pl)"
  by (induction n) (simp_all add: requests_def)

lemma requests_publish_phases: "requests (publish_phases tp i ps) = []"
  by (induction ps arbitrary: i) (simp_all add: requests_def)

lemma requests_publish_strings: "requests (publish_strings tp i ss) = []"
  by (induction ss arbitrary: i) (simp_all add: requests_def)

lemma requests_mqtt_send_status: "requests (mqtt_send_status ser data tpc) = []"
  by (simp add: mqtt_send_status_def Let_def requests_append requests_publish_phases
      requests_publish_strings) (simp add: requests_def)

lemma rxtx_loop_extracted:
  "rxtx_loop xs (r, t) = Inr (r', t') \<Longrightarrow> extracted xs \<Longrightarrow> t' = 0"
proof (induction xs "(r, t)" arbitrary: r t rule: rxtx_loop.induct)
  case (2 p rest response payload_ttl)
  then have "rxtx_loop rest (Some p, 0) = Inr (r', t')" by simp
  from rxtx_loop_ttl[OF this] show ?case by simp
qed auto

lemma retry_shape:
  "retry radio tx k ttl resp effs = (res, effs')
   \<Longrightarrow> \<exists>n. n \<le> ttl \<and> (0 < ttl \<longrightarrow> 0 < n) \<and> effs' = effs @ replicate n tx
           \<and> (\<forall>j. Suc j < n \<longrightarrow> \<not> extracted (radio (k + j)))"
proof (induction radio tx k ttl resp effs arbitrary: res effs' rule: retry.induct)
  case (1 radio tx k ttl resp effs)
  show ?case
  proof (cases "0 < ttl")
    case False
    with "1.prems" have "effs' = effs" by (simp add: retry.simps Let_def)
    with False show ?thesis by simp
  next
    case True
    show ?thesis
    proof (cases "rxtx_loop (radio k) (None, ttl - 1)")
      case (Inl e)
      with True "1.prems" have "effs' = effs @ [tx]"
        by (subst (asm) retry.simps Let_def) simp
      then have "effs' = effs @ replicate 1 tx" by simp
      with True show ?thesis by (intro exI[of _ 1]) simp
    next
      case (Inr s)
      obtain r' t' where s: "s = (r', t')" by (cases s)
      from Inr s have loop: "rxtx_loop (radio k) (None, ttl - 1) = Inr (r', t')" by simp
      from rxtx_loop_ttl[OF loop] have t': "t' \<le> ttl - 1" .
      from True "1.prems" loop
      have "retry radio tx (k + 1) t' r' (effs @ [tx]) = (res, effs')"
        by (subst (asm) retry.simps Let_def) simp
      from "1.IH"[OF True loop refl this] obtain m where m: "m \<le> t'"
        "effs' = (effs @ [tx]) @ replicate m tx"
        "\<forall>j. Suc j < m \<longrightarrow> \<not> extracted (radio (k + 1 + j))" by blast
      have first: "\<not> extracted (radio k)" if "0 < m"
      proof
        assume "extracted (radio k)"
        from rxtx_loop_extracted[OF loop this] m(1) that show False by simp
      qed
      have "\<forall>j. Suc j < Suc m \<longrightarrow> \<not> extracted (radio (k + j))"
      proof (intro allI impI)
        fix j assume j: "Suc j < Suc m"
        show "\<not> extracted (radio (k + j))"
        proof (cases j)
          case 0
          with j first show ?thesis by simp
        next
          case (Suc i)
          with j m(3) show ?thesis by simp
        qed
      qed
      moreover from m(2) have "effs' = effs @ replicate (Suc m) tx"
        by (simp add: replicate_append_same)
      moreover from m(1) t' True have "Suc m \<le> ttl" by simp
      ultimately show ?thesis by (intro exI[of _ "Suc m"]) simp
    qed
  qed
qed


lemma poll_inverter_result:
  assumes q: "command_queue st (serial inverter) = Some q"
    and r: "retry radio
              (Transaction dtu (serial inverter)
                 (case q of [] \<Rightarrow> compose_set_time_payload ext now | p # _ \<Rightarrow> p))
              0 4 None (effects st) = (res, effs')"
  shows "\<exists>pubs. requests pubs = []
           \<and> snd (poll_inverter ext dtu now radio inverter st)
               = st\<lparr>command_queue := (command_queue st)(serial inverter \<mapsto> tl q),
                    effects := effs' @ pubs\<rparr>"
proof -
  let ?pl = "case q of [] \<Rightarrow> compose_set_time_payload ext now | p # _ \<Rightarrow> p"
  define pubs where "pubs =
    (case res of
       Inl e \<Rightarrow> []
     | Inr None \<Rightarrow> []
     | Inr (Some r) \<Rightarrow>
         if r \<noteq> []
         then (case decode ext r ?pl (serial inverter) of
                 Some data \<Rightarrow>
                   if mqtt_client st
                   then mqtt_send_status (serial inverter) data (mqtt_topic inverter)
                   else []
               | None \<Rightarrow> [])
         else [])"
  have none: "requests pubs = []"
    by (simp add: pubs_def requests_mqtt_send_status requests_Nil
        split: sum.splits option.splits)
  have "snd (poll_inverter ext dtu now radio inverter st)
               = st\<lparr>command_queue := (command_queue st)(serial inverter \<mapsto> tl q),
                    effects := effs' @ pubs\<rparr>"
  proof (cases q)
    case Nil
    with q have m: "(command_queue st)(serial inverter \<mapsto> tl q) = command_queue st"
      by (simp add: map_upd_triv)
    from Nil q r show ?thesis
      unfolding m
      by (auto simp: poll_inverter_def Let_def pubs_def split: sum.splits option.splits)
  next
    case (Cons p rest)
    with q r show ?thesis
      by (auto simp: poll_inverter_def Let_def pubs_def split: sum.splits option.splits)
  qed
  with none show ?thesis by blast
qed

lemma poll_inverter_shape:
  assumes q: "command_queue st (serial inverter) = Some q"
  shows "\<exists>n. 1 \<le> n \<and> n \<le> 4
           \<and> requests (effects (snd (poll_inverter ext dtu now radio inverter st)))
               = requests (effects st)
                 @ replicate n (serial inverter,
                     case q of [] \<Rightarrow> compose_set_time_payload ext now | p # _ \<Rightarrow> p)
           \<and> (\<forall>j. Suc j < n \<longrightarrow> \<not> extracted (radio j))
           \<and> command_queue (snd (poll_inverter ext dtu now radio inverter st))
               = (command_queue st)(serial inverter \<mapsto> tl q)"
proof -
  let ?pl = "case q of [] \<Rightarrow> compose_set_time_payload ext now | p # _ \<Rightarrow> p"
  let ?tx = "Transaction dtu (serial inverter) ?pl"
  obtain res effs' where r: "retry radio ?tx 0 4 None (effects st) = (res, effs')"
    by (cases "retry radio ?tx 0 4 None (effects st)")
  from retry_shape[OF r] obtain n where n: "n \<le> 4" "0 < n"
    "effs' = effects st @ replicate n ?tx"
    "\<forall>j. Suc j < n \<longrightarrow> \<not> extracted (radio (0 + j))" by auto
  from poll_inverter_result[OF q r] obtain pubs where pubs: "requests pubs = []"
    "snd (poll_inverter ext dtu now radio inverter st)
       = st\<lparr>command_queue := (command_queue st)(serial inverter \<mapsto> tl q),
            effects := effs' @ pubs\<rparr>" by blast
  from pubs n(3)
  have "requests (effects (snd (poll_inverter ext dtu now radio inverter st)))
          = requests (effects st) @ replicate n (serial inverter, ?pl)"
    by (simp add: requests_append requests_replicate)
  moreover from pubs(2)
  have "command_queue (snd (poll_inverter ext dtu now radio inverter st))
          = (command_queue st)(serial inverter \<mapsto> tl q)" by simp
  ultimately show ?thesis using n by (intro exI[of _ n]) simp
qed

lemma poll_inverter_no_queue:
  "command_queue st (serial inverter) = None
   \<Longrightarrow> poll_inverter ext dtu now radio inverter st = (Some KeyError, st)"
  by (simp add: poll_inverter_def)

subsection \<open>The retry loop\<close>

text \<open>
  C2. A poll constructs at most four transactions, and once a transaction has
  extracted a response payload no further one is constructed: if the transaction
  number \<open>j\<close> (counted from 0) extracts one, the poll has at most \<open>j + 1\<close>.
\<close>

theorem poll_inverter_attempts:
  "length (requests (effects (snd (poll_inverter ext dtu now radio inverter st))))
     \<le> length (requests (effects st)) + 4
   \<and> (\<forall>j. extracted (radio j) \<longrightarrow>
         length (requests (effects (snd (poll_inverter ext dtu now radio inverter st))))
           \<le> length (requests (effects st)) + Suc j)"
proof (cases "command_queue st (serial inverter)")
  case None
  then show ?thesis by (simp add: poll_inverter_no_queue)
next
  case (Some q)
  from poll_inverter_shape[OF Some, of ext dtu now radio] obtain n where n: "n \<le> 4"
    "length (requests (effects (snd (poll_inverter ext dtu now radio inverter st))))
       = length (requests (effects st)) + n"
    "\<forall>j. Suc j < n \<longrightarrow> \<not> extracted (radio j)"
    by (metis length_append length_replicate)
  have "n \<le> Suc j" if "extracted (radio j)" for j
    using n(3) that by (meson not_less)
  with n show ?thesis by simp
qed

theorem poll_inverter_attempts_witness:
  "extracted (ex_radio 1)
   \<and> length (requests (effects
        (snd (poll_inverter ex_ext ''99'' 1700000000 ex_radio ex_inverter ex_state))))
       \<le> length (requests (effects ex_state)) + 2"
proof -
  have h: "extracted (ex_radio 1)" by (simp add: ex_radio_def)
  from poll_inverter_attempts [of ex_ext "''99''" 1700000000 ex_radio ex_inverter ex_state]
  have "extracted (ex_radio 1) \<longrightarrow>
          length (requests (effects
            (snd (poll_inverter ex_ext ''99'' 1700000000 ex_radio ex_inverter ex_state))))
          \<le> length (requests (effects ex_state)) + Suc 1" by blast
  with h show ?thesis by simp
qed

text \<open>On \<open>ex_radio\<close> the second transaction extracts, and the poll has two.\<close>

lemma poll_inverter_example:
  "poll_inverter ex_ext ''99'' 1700000000 ex_radio ex_inverter ex_state
     = (None, ex_state\<lparr>effects := effects ex_state
          @ [Transaction ''99'' ''114'' [CHR 0x0B, CHR 0x00],
             Transaction ''99'' ''114'' [CHR 0x0B, CHR 0x00]]\<rparr>)"
  by (simp add: poll_inverter_def ex_ext_def ex_radio_def ex_inverter_def ex_state_def
      retry.simps Let_def)

subsection \<open>The command queue in a poll\<close>



text \<open>The two commands go out in the order in which they were queued.\<close>

lemma polls_example:
  "requests (effects (snd (polls ex_ext ''99''
       [(1700000000, ex_radio), (1700000010, ex_radio)] ex_inverter ex_state_queued)))
     = [(''114'', ''A''), (''114'', ''A''), (''114'', ''B''), (''114'', ''B'')]"
  by (simp add: poll_inverter_def ex_ext_def ex_radio_def ex_inverter_def ex_state_def
      ex_state_queued_def retry.simps requests_def Let_def)

end
